theory Spec2Isabelle
  imports Complex_Main "HOL-Library.Sublist" "HOL-Library.AList"
begin

section \<open>Python values used by the model layer\<close>

text \<open>
  The embedded code is \<^verbatim>\<open>base_classes.py\<close> (the decorators, \<^verbatim>\<open>AIModelBase\<close>, the two
  mixins) and \<^verbatim>\<open>ai_models.py\<close> (the two model classes and \<^verbatim>\<open>ModelFactory\<close>).

  A Python \<^verbatim>\<open>str\<close> is a \<^typ>\<open>string\<close>: a list of characters, each character a code point
  below 256. The substring test \<^verbatim>\<open>a in b\<close> is \<^const>\<open>sublist\<close> and \<^verbatim>\<open>b.endswith(a)\<close> is
  \<^const>\<open>suffix\<close>, both from the library.
\<close>

text \<open>\<^verbatim>\<open>str.isspace\<close> on one code point below 256: TAB..CR, FS..US, space, NEL, NBSP.\<close>

definition isspace :: "char \<Rightarrow> bool" where
  "isspace c =
     (let n = (of_char c :: nat)
      in (9 \<le> n \<and> n \<le> 13) \<or> (28 \<le> n \<and> n \<le> 32) \<or> n = 133 \<or> n = 160)"

text \<open>
  \<^verbatim>\<open>str.lower\<close> on one code point below 256: the letters A..Z and the Latin-1 capitals
  (U+00C0..U+00DE without the multiplication sign U+00D7) move up by 32.
\<close>

definition lower_char :: "char \<Rightarrow> char" where
  "lower_char c =
     (let n = (of_char c :: nat)
      in if (65 \<le> n \<and> n \<le> 90) \<or> (192 \<le> n \<and> n \<le> 214) \<or> (216 \<le> n \<and> n \<le> 222)
         then char_of (n + 32) else c)"

definition lower :: "string \<Rightarrow> string" where
  "lower s = map lower_char s"

text \<open>
  The reading of "case-insensitive" that the lowered comparisons are measured against:
  \<open>c\<close> is the character \<open>p\<close> or, when \<open>p\<close> is a small ASCII letter, its capital.
\<close>

definition same_letter :: "char \<Rightarrow> char \<Rightarrow> bool" where
  "same_letter c p =
     (c = p \<or> (97 \<le> (of_char p :: nat) \<and> (of_char p :: nat) \<le> 122
                \<and> of_char c + 32 = (of_char p :: nat)))"

text \<open>\<^verbatim>\<open>s.strip()\<close>: white space is removed at both ends.\<close>

definition strip :: "string \<Rightarrow> string" where
  "strip s = rev (dropWhile isspace (rev (dropWhile isspace s)))"

text \<open>\<^verbatim>\<open>s.replace(old, new)\<close> for one-character \<^verbatim>\<open>old\<close> and \<^verbatim>\<open>new\<close>, as both calls are.\<close>

definition replace :: "char \<Rightarrow> char \<Rightarrow> string \<Rightarrow> string" where
  "replace old new s = map (\<lambda>c. if c = old then new else c) s"

text \<open>\<^verbatim>\<open>os.path.basename\<close> of \<^verbatim>\<open>posixpath\<close>: what follows the last slash.\<close>

definition basename :: "string \<Rightarrow> string" where
  "basename p = rev (takeWhile (\<lambda>c. c \<noteq> CHR ''/'') (rev p))"

text \<open>A name in single quotes, as CPython prints it in its messages.\<close>

definition quoted :: "string \<Rightarrow> string" where
  "quoted s = CHR 0x27 # s @ [CHR 0x27]"

fun digit_char :: "nat \<Rightarrow> char" where
  "digit_char n = char_of (48 + n)"

function str_nat :: "nat \<Rightarrow> string" where
  "str_nat n = (if n < 10 then [digit_char n] else str_nat (n div 10) @ [digit_char (n mod 10)])"
  by pat_completeness auto
termination
  by (relation "measure id") auto

text \<open>
  An exception is an instance of a subclass of \<^verbatim>\<open>Exception\<close>: its class name and the text
  \<^verbatim>\<open>str(e)\<close>. A call returns a value or raises: \<open>Inl\<close> is the raised exception.
\<close>

datatype exn = PyExc (exc_class: string) (exc_str: string)

text \<open>
  The values that results are made of. A \<^verbatim>\<open>dict\<close> is an association list in insertion
  order; a score is the number its literal denotes.
\<close>

datatype pyval =
    PyNone
  | PyStr string
  | PyInt int
  | PyFloat real
  | PyList "pyval list"
  | PyTuple "pyval list"
  | PyDict "(string \<times> pyval) list"

text \<open>
  The argument of \<^verbatim>\<open>process_input\<close>: the declared \<^verbatim>\<open>str\<close>, or \<^verbatim>\<open>None\<close>, or a \<^verbatim>\<open>bool\<close>
  (an argument that is not a string, with and without a truth value).
\<close>

datatype pyarg = ArgNone | ArgBool bool | ArgStr string

text \<open>\<^verbatim>\<open>bool(x)\<close>, which \<^verbatim>\<open>not x\<close> negates.\<close>

fun truthy :: "pyarg \<Rightarrow> bool" where
  "truthy ArgNone = False"
| "truthy (ArgBool b) = b"
| "truthy (ArgStr s) = (s \<noteq> [])"

text \<open>\<^verbatim>\<open>str(x)\<close> and \<^verbatim>\<open>type(x).__name__\<close>.\<close>

fun py_str :: "pyarg \<Rightarrow> string" where
  "py_str ArgNone = ''None''"
| "py_str (ArgBool b) = (if b then ''True'' else ''False'')"
| "py_str (ArgStr s) = s"

fun type_name :: "pyarg \<Rightarrow> string" where
  "type_name ArgNone = ''NoneType''"
| "type_name (ArgBool b) = ''bool''"
| "type_name (ArgStr s) = ''str''"

section \<open>The model instance\<close>

text \<open>What \<^verbatim>\<open>PIL.Image.open\<close> returns, as far as \<^verbatim>\<open>get_image_info\<close> reads it.\<close>

record image =
  img_format :: "string option"
  img_mode :: string
  img_size :: "int \<times> int"

text \<open>
  \<^verbatim>\<open>self._pipeline\<close> is \<^verbatim>\<open>None\<close>, a string (the mock marker), or the callable that
  \<^verbatim>\<open>transformers.pipeline\<close> returned. The callable is an external collaborator: a function
  from its input to a value or an exception.
\<close>

datatype responder_input = TextIn string | ImageIn image

datatype pipeline =
    PNone
  | PStr string
  | PCallable "responder_input \<Rightarrow> exn + pyval"

datatype variant = TextClassificationModel | ImageClassificationModel

record model =
  cls :: variant
  model_name :: string
  category :: string
  is_loaded :: bool
  underlying_model :: pyval
  pipeline :: pipeline

text \<open>\<^verbatim>\<open>AIModelBase.__init__\<close> followed by the subclass's \<^verbatim>\<open>__init__\<close>.\<close>

definition AIModelBase_init :: "variant \<Rightarrow> string \<Rightarrow> string \<Rightarrow> model" where
  "AIModelBase_init c name cat =
     \<lparr>cls = c, model_name = name, category = cat, is_loaded = False,
      underlying_model = PyNone, pipeline = PNone\<rparr>"

fun new_instance :: "variant \<Rightarrow> model" where
  "new_instance TextClassificationModel =
     (AIModelBase_init TextClassificationModel
        ''distilbert-base-uncased-finetuned-sst-2-english'' ''Text Classification'')
       \<lparr>pipeline := PNone\<rparr>"
| "new_instance ImageClassificationModel =
     (AIModelBase_init ImageClassificationModel
        ''google/vit-base-patch16-224'' ''Image Classification'')
       \<lparr>pipeline := PNone\<rparr>"

text \<open>
  The result of a method call: what it returned or raised, the instance afterwards, and the
  paths it passed to \<^verbatim>\<open>Image.open\<close>, in order.
\<close>

record ret =
  outcome :: "exn + pyval"
  self_after :: model
  opened :: "string list"

section \<open>The decorators\<close>

text \<open>
  A decorated method is called with the instance and the tuple of its positional arguments
  (every call in the repository passes the input positionally, so \<^verbatim>\<open>kwargs\<close> is empty).
  \<^verbatim>\<open>performance_monitor\<close> reads the clock, calls the method, prints the duration and returns
  the method's result.
\<close>

definition performance_monitor ::
  "(model \<Rightarrow> pyarg list \<Rightarrow> ret) \<Rightarrow> model \<Rightarrow> pyarg list \<Rightarrow> ret" where
  "performance_monitor func self args = func self args"

definition validate_input ::
  "(model \<Rightarrow> pyarg list \<Rightarrow> ret) \<Rightarrow> model \<Rightarrow> pyarg list \<Rightarrow> ret" where
  "validate_input func self args =
     (if args \<noteq> [] \<and> \<not> truthy (hd args)
      then \<lparr>outcome = Inl (PyExc ''ValueError'' ''Input cannot be empty''),
            self_after = self, opened = []\<rparr>
      else func self args)"

text \<open>
  Binding the positional arguments of \<^verbatim>\<open>def process_input(self, x)\<close>: exactly one is
  accepted, any other number raises \<^verbatim>\<open>TypeError\<close> at the call (the message of CPython 3.10
  and later).
\<close>

definition bind_input ::
  "string \<Rightarrow> string \<Rightarrow> (model \<Rightarrow> pyarg \<Rightarrow> ret) \<Rightarrow> model \<Rightarrow> pyarg list \<Rightarrow> ret" where
  "bind_input qualname param func self args =
     (case args of
        [] \<Rightarrow> \<lparr>outcome = Inl (PyExc ''TypeError''
                  (qualname @ ''() missing 1 required positional argument: '' @ quoted param)),
                self_after = self, opened = []\<rparr>
      | [x] \<Rightarrow> func self x
      | _ \<Rightarrow> \<lparr>outcome = Inl (PyExc ''TypeError''
                  (qualname @ ''() takes 2 positional arguments but ''
                     @ str_nat (length args + 1) @ '' were given'')),
                self_after = self, opened = []\<rparr>)"

section \<open>The mixins\<close>

definition clean_text :: "pyarg \<Rightarrow> string" where
  "clean_text text =
     (case text of
        ArgStr s \<Rightarrow> replace (CHR 0x09) (CHR '' '') (replace (CHR 0x0A) (CHR '' '') (strip s))
      | _ \<Rightarrow> py_str text)"

definition validate_text_length :: "string \<Rightarrow> nat \<Rightarrow> bool" where
  "validate_text_length text max_length = (length text \<le> max_length)"

definition valid_formats :: "string list" where
  "valid_formats = [''.jpg'', ''.jpeg'', ''.png'', ''.bmp'', ''.gif'']"

definition validate_image_format :: "string \<Rightarrow> bool" where
  "validate_image_format image_path =
     list_ex (\<lambda>fmt. suffix fmt (lower image_path)) valid_formats"

text \<open>
  The file system is a parameter \<open>fs\<close>: what \<^verbatim>\<open>Image.open(path)\<close> gives, an image or an
  exception.
\<close>

definition get_image_info :: "(string \<Rightarrow> exn + image) \<Rightarrow> string \<Rightarrow> pyval" where
  "get_image_info fs image_path =
     (case fs image_path of
        Inr img \<Rightarrow>
          PyDict [(''format'', (case img_format img of None \<Rightarrow> PyNone | Some f \<Rightarrow> PyStr f)),
                  (''mode'', PyStr (img_mode img)),
                  (''size'', PyTuple [PyInt (fst (img_size img)), PyInt (snd (img_size img))])]
      | Inl e \<Rightarrow> PyDict [(''error'', PyStr (exc_str e))])"

section \<open>\<^verbatim>\<open>process_input\<close>\<close>

definition error_result :: "string \<Rightarrow> pyval" where
  "error_result msg = PyDict [(''error'', PyStr msg)]"

text \<open>\<^verbatim>\<open>isinstance(p, str) and p == marker\<close>\<close>

definition is_mock :: "pipeline \<Rightarrow> string \<Rightarrow> bool" where
  "is_mock p marker = (case p of PStr s \<Rightarrow> s = marker | _ \<Rightarrow> False)"

text \<open>\<^verbatim>\<open>self._pipeline(x)\<close>: calling \<^verbatim>\<open>None\<close> or a string raises \<^verbatim>\<open>TypeError\<close>.\<close>

definition call_pipeline :: "pipeline \<Rightarrow> responder_input \<Rightarrow> exn + pyval" where
  "call_pipeline p x =
     (case p of
        PNone \<Rightarrow> Inl (PyExc ''TypeError'' (quoted ''NoneType'' @ '' object is not callable''))
      | PStr s \<Rightarrow> Inl (PyExc ''TypeError'' (quoted ''str'' @ '' object is not callable''))
      | PCallable f \<Rightarrow> f x)"

definition label_score :: "string \<Rightarrow> real \<Rightarrow> pyval" where
  "label_score l s = PyDict [(''label'', PyStr l), (''score'', PyFloat s)]"

definition mock_sentiment :: "string \<Rightarrow> pyval" where
  "mock_sentiment cleaned_text =
     PyList [label_score
               (if sublist ''good'' (lower cleaned_text) \<or> sublist ''great'' (lower cleaned_text)
                then ''POSITIVE'' else ''NEGATIVE'')
               0.95]"

text \<open>The body of the \<^verbatim>\<open>try\<close> block of \<^verbatim>\<open>TextClassificationModel.process_input\<close>.\<close>

definition text_try :: "model \<Rightarrow> pyarg \<Rightarrow> exn + pyval" where
  "text_try self input_text =
     (let cleaned_text = clean_text input_text
      in if \<not> validate_text_length cleaned_text 1000
         then Inr (error_result ''Text too long (max 1000 characters)'')
         else (case (if is_mock (pipeline self) ''mock_sentiment_pipeline''
                     then Inr (mock_sentiment cleaned_text)
                     else call_pipeline (pipeline self) (TextIn cleaned_text)) of
                 Inl e \<Rightarrow> Inl e
               | Inr results \<Rightarrow>
                   Inr (PyDict [(''input'', PyStr cleaned_text),
                                (''results'', results),
                                (''model_used'', PyStr (model_name self))])))"

text \<open>\<^verbatim>\<open>except Exception as e: return {"error": f"Processing failed: {str(e)}"}\<close>\<close>

definition except_Exception :: "exn + pyval \<Rightarrow> exn + pyval" where
  "except_Exception r =
     (case r of
        Inl e \<Rightarrow> Inr (error_result (''Processing failed: '' @ exc_str e))
      | Inr v \<Rightarrow> Inr v)"

definition text_process_input :: "model \<Rightarrow> pyarg \<Rightarrow> ret" where
  "text_process_input self input_text =
     (if \<not> is_loaded self
      then \<lparr>outcome = Inr (error_result ''Model not loaded''), self_after = self, opened = []\<rparr>
      else \<lparr>outcome = except_Exception (text_try self input_text),
            self_after = self, opened = []\<rparr>)"

definition mock_image :: "string \<Rightarrow> pyval" where
  "mock_image filename =
     (if sublist ''cat'' filename
      then PyList [label_score ''tabby cat'' 0.85, label_score ''domestic cat'' 0.12]
      else if sublist ''dog'' filename
      then PyList [label_score ''golden retriever'' 0.78, label_score ''labrador'' 0.15]
      else PyList [label_score ''object'' 0.65, label_score ''item'' 0.25,
                   label_score ''thing'' 0.10])"

text \<open>\<^verbatim>\<open>results[:5] if isinstance(results, list) else results\<close>\<close>

definition top5 :: "pyval \<Rightarrow> pyval" where
  "top5 results = (case results of PyList xs \<Rightarrow> PyList (take 5 xs) | _ \<Rightarrow> results)"

text \<open>
  The body of the \<^verbatim>\<open>try\<close> block of \<^verbatim>\<open>ImageClassificationModel.process_input\<close>, with the
  paths it opened. An argument that is not a string has no method \<^verbatim>\<open>lower\<close>.
\<close>

definition image_try ::
  "(string \<Rightarrow> exn + image) \<Rightarrow> model \<Rightarrow> pyarg \<Rightarrow> (exn + pyval) \<times> string list" where
  "image_try fs self arg =
     (case arg of
        ArgStr image_path \<Rightarrow>
          if \<not> validate_image_format image_path
          then (Inr (error_result ''Invalid image format''), [])
          else (case fs image_path of
                  Inl e \<Rightarrow> (Inl e, [image_path])
                | Inr img \<Rightarrow>
                    (let image_info = get_image_info fs image_path
                     in (case (if is_mock (pipeline self) ''mock_image_pipeline''
                               then Inr (mock_image (lower (basename image_path)))
                               else call_pipeline (pipeline self) (ImageIn img)) of
                           Inl e \<Rightarrow> (Inl e, [image_path, image_path])
                         | Inr results \<Rightarrow>
                             (Inr (PyDict [(''image_info'', image_info),
                                           (''results'', top5 results),
                                           (''model_used'', PyStr (model_name self))]),
                              [image_path, image_path]))))
      | _ \<Rightarrow> (Inl (PyExc ''AttributeError''
                    (quoted (type_name arg) @ '' object has no attribute '' @ quoted ''lower'')),
              []))"

definition image_process_input :: "(string \<Rightarrow> exn + image) \<Rightarrow> model \<Rightarrow> pyarg \<Rightarrow> ret" where
  "image_process_input fs self image_path =
     (if \<not> is_loaded self
      then \<lparr>outcome = Inr (error_result ''Model not loaded''), self_after = self, opened = []\<rparr>
      else \<lparr>outcome = except_Exception (fst (image_try fs self image_path)),
            self_after = self, opened = snd (image_try fs self image_path)\<rparr>)"

text \<open>
  The method as callers see it: \<^verbatim>\<open>@validate_input\<close> over \<^verbatim>\<open>@performance_monitor\<close> over the
  body, dispatched on the class of the instance.
\<close>

definition process_input :: "(string \<Rightarrow> exn + image) \<Rightarrow> model \<Rightarrow> pyarg list \<Rightarrow> ret" where
  "process_input fs self args =
     (case cls self of
        TextClassificationModel \<Rightarrow>
          validate_input
            (performance_monitor
               (bind_input ''TextClassificationModel.process_input'' ''input_text''
                  text_process_input))
            self args
      | ImageClassificationModel \<Rightarrow>
          validate_input
            (performance_monitor
               (bind_input ''ImageClassificationModel.process_input'' ''image_path''
                  (image_process_input fs)))
            self args)"

text \<open>The \<^verbatim>\<open>try\<close> block of the class of the instance.\<close>

definition try_block :: "(string \<Rightarrow> exn + image) \<Rightarrow> model \<Rightarrow> pyarg \<Rightarrow> exn + pyval" where
  "try_block fs self x =
     (case cls self of
        TextClassificationModel \<Rightarrow> text_try self x
      | ImageClassificationModel \<Rightarrow> fst (image_try fs self x))"

section \<open>\<^verbatim>\<open>load_model\<close> and \<^verbatim>\<open>get_model_info\<close>\<close>

text \<open>
  \<^verbatim>\<open>transformers.pipeline(task, model=name)\<close> is a parameter \<open>hub\<close>: it returns a callable
  or raises. When it raises, the mock marker is stored instead. Nothing else in the outer
  \<^verbatim>\<open>try\<close> block (the sleep, the assignment, the print) raises, so its handler, which
  would clear the loaded flag, is never entered.
\<close>

definition load_model ::
  "(string \<Rightarrow> string \<Rightarrow> exn + (responder_input \<Rightarrow> exn + pyval)) \<Rightarrow> model \<Rightarrow> model" where
  "load_model hub self =
     (case cls self of
        TextClassificationModel \<Rightarrow>
          (case hub ''sentiment-analysis'' (model_name self) of
             Inr p \<Rightarrow> self\<lparr>pipeline := PCallable p, is_loaded := True\<rparr>
           | Inl e \<Rightarrow> self\<lparr>pipeline := PStr ''mock_sentiment_pipeline'', is_loaded := True\<rparr>)
      | ImageClassificationModel \<Rightarrow>
          (case hub ''image-classification'' (model_name self) of
             Inr p \<Rightarrow> self\<lparr>pipeline := PCallable p, is_loaded := True\<rparr>
           | Inl e \<Rightarrow> self\<lparr>pipeline := PStr ''mock_image_pipeline'', is_loaded := True\<rparr>))"

definition AIModelBase_get_model_info :: "model \<Rightarrow> (string \<times> string) list" where
  "AIModelBase_get_model_info self =
     [(''name'', model_name self),
      (''category'', category self),
      (''status'', if is_loaded self then ''Loaded'' else ''Not Loaded'')]"

text \<open>\<^verbatim>\<open>d.update(other)\<close>: each key of \<^verbatim>\<open>other\<close> is overwritten in place or appended.\<close>

definition dict_update :: "(string \<times> string) list \<Rightarrow> (string \<times> string) list \<Rightarrow> (string \<times> string) list" where
  "dict_update d other = foldl (\<lambda>acc kv. AList.update (fst kv) (snd kv) acc) d other"

definition get_model_info :: "model \<Rightarrow> (string \<times> string) list" where
  "get_model_info self =
     (case cls self of
        TextClassificationModel \<Rightarrow>
          dict_update (AIModelBase_get_model_info self)
            [(''description'', ''DistilBERT sentiment analysis model''),
             (''input_type'', ''Text''),
             (''output_type'', ''Sentiment classification (POSITIVE/NEGATIVE)''),
             (''use_case'', ''Analyze sentiment of text input, reviews, comments'')]
      | ImageClassificationModel \<Rightarrow>
          dict_update (AIModelBase_get_model_info self)
            [(''description'', ''Vision Transformer for image classification''),
             (''input_type'', ''Image (JPG, PNG, BMP, GIF)''),
             (''output_type'', ''Object classification with confidence scores''),
             (''use_case'', ''Identify objects, animals, scenes in images'')])"

section \<open>\<^verbatim>\<open>ModelFactory\<close>\<close>

text \<open>
  The registry \<^verbatim>\<open>_models\<close> in the order it is written. Instances live in a heap, a list
  in allocation order; a reference is an index into it, and constructing an instance
  appends it. The membership test and the lookup of \<^verbatim>\<open>create_model\<close> are one case
  distinction on the lookup.
\<close>

definition models :: "(string \<times> variant) list" where
  "models = [(''Text-to-Image'', TextClassificationModel),
             (''Image Classification'', ImageClassificationModel)]"

type_synonym heap = "model list"

definition allocated :: "heap \<Rightarrow> nat \<Rightarrow> bool" where
  "allocated h r = (r < length h)"

definition create_model :: "heap \<Rightarrow> string \<Rightarrow> (exn + nat) \<times> heap" where
  "create_model h model_type =
     (case map_of models model_type of
        None \<Rightarrow> (Inl (PyExc ''ValueError'' (''Unknown model type: '' @ model_type)), h)
      | Some c \<Rightarrow> (Inr (length h), h @ [new_instance c]))"

definition get_available_models :: "string list" where
  "get_available_models = map fst models"

text \<open>A caller creating one instance after the other: the references it was given.\<close>

fun create_all :: "heap \<Rightarrow> string list \<Rightarrow> nat list \<times> heap" where
  "create_all h [] = ([], h)"
| "create_all h (t # ts) =
     (case create_model h t of
        (Inl e, h') \<Rightarrow> create_all h' ts
      | (Inr r, h') \<Rightarrow> (r # fst (create_all h' ts), snd (create_all h' ts)))"

section \<open>Environments for the examples\<close>

text \<open>A model hub that cannot be reached, and one whose pipeline fails on every input.\<close>

definition offline_hub :: "string \<Rightarrow> string \<Rightarrow> exn + (responder_input \<Rightarrow> exn + pyval)" where
  "offline_hub task name = Inl (PyExc ''OSError'' ''no connection'')"

definition failing_responder :: "responder_input \<Rightarrow> exn + pyval" where
  "failing_responder x = Inl (PyExc ''RuntimeError'' ''out of memory'')"

definition failing_hub :: "string \<Rightarrow> string \<Rightarrow> exn + (responder_input \<Rightarrow> exn + pyval)" where
  "failing_hub task name = Inr failing_responder"

text \<open>A file system without files, and one where every path opens as the same picture.\<close>

definition no_files :: "string \<Rightarrow> exn + image" where
  "no_files path = Inl (PyExc ''FileNotFoundError'' ''No such file or directory'')"

definition picture :: image where
  "picture = \<lparr>img_format = Some ''PNG'', img_mode = ''RGB'', img_size = (640, 480)\<rparr>"

definition any_file :: "string \<Rightarrow> exn + image" where
  "any_file path = Inr picture"

section \<open>Characters and strings\<close>

lemma char_of_eq_iff: "n < 256 \<Longrightarrow> (char_of (n::nat) = c) = (of_char c = n)"
  by (metis char_of_char mod_less of_char_of)

lemma lower_char_slash: "(lower_char c = CHR ''/'') = (c = CHR ''/'')"
  by (auto simp: lower_char_def Let_def char_of_eq_iff)

text \<open>
  Lowering gives an ASCII character that is not a capital exactly for that character and,
  if it is a small letter, for its capital.
\<close>

lemma lower_char_ascii:
  "(of_char p :: nat) < 65 \<or> (90 < (of_char p :: nat) \<and> (of_char p :: nat) < 128) \<Longrightarrow>
   (lower_char c = p) = same_letter c p"
  by (auto simp: lower_char_def Let_def char_of_eq_iff same_letter_def)

lemma map_lower_char_iff:
  assumes "\<forall>p \<in> set pat.
      (of_char p :: nat) < 65 \<or> (90 < (of_char p :: nat) \<and> (of_char p :: nat) < 128)"
  shows "(map lower_char w = pat) = list_all2 same_letter w pat"
  using assms
proof (induction w arbitrary: pat)
  case Nil
  then show ?case by auto
next
  case (Cons c w)
  then show ?case
    by (cases pat) (simp_all add: lower_char_ascii)
qed

lemma sublist_map_iff:
  "sublist pat (map f t) = (\<exists>w. sublist w t \<and> map f w = pat)"
proof
  assume "sublist pat (map f t)"
  then obtain ps ss where "map f t = ps @ pat @ ss"
    by (auto simp: sublist_def)
  then obtain t1 t2 where 1: "t = t1 @ t2" "pat @ ss = map f t2"
    unfolding map_eq_append_conv by blast
  from 1(2) [symmetric] obtain w t3 where "t2 = w @ t3" "map f w = pat"
    unfolding map_eq_append_conv by blast
  with 1 have "t = t1 @ w @ t3" "map f w = pat"
    by simp_all
  then show "\<exists>w. sublist w t \<and> map f w = pat"
    by (auto simp: sublist_def)
next
  assume "\<exists>w. sublist w t \<and> map f w = pat"
  then obtain w ps ss where "t = ps @ w @ ss" "map f w = pat"
    by (auto simp: sublist_def)
  then have "map f t = map f ps @ pat @ map f ss"
    by simp
  then show "sublist pat (map f t)"
    unfolding sublist_def by blast
qed

lemma suffix_map_iff:
  "suffix pat (map f t) = (\<exists>w. suffix w t \<and> map f w = pat)"
proof
  assume "suffix pat (map f t)"
  then obtain ps where "map f t = ps @ pat"
    by (auto simp: suffix_def)
  then obtain t1 w where "t = t1 @ w" "pat = map f w"
    unfolding map_eq_append_conv by blast
  then show "\<exists>w. suffix w t \<and> map f w = pat"
    by (auto simp: suffix_def)
next
  assume "\<exists>w. suffix w t \<and> map f w = pat"
  then show "suffix pat (map f t)"
    by (auto simp: suffix_def)
qed

text \<open>
  What the lowered comparisons of the code mean: a pattern of ASCII characters without
  capitals occurs in (or ends) the lowered text exactly when the text has, at that place,
  the pattern with each letter in either case.
\<close>

lemma sublist_lower_iff:
  assumes "\<forall>p \<in> set pat.
      (of_char p :: nat) < 65 \<or> (90 < (of_char p :: nat) \<and> (of_char p :: nat) < 128)"
  shows "sublist pat (lower t) = (\<exists>w. sublist w t \<and> list_all2 same_letter w pat)"
  by (simp add: lower_def sublist_map_iff map_lower_char_iff [OF assms])

lemma suffix_lower_iff:
  assumes "\<forall>p \<in> set pat.
      (of_char p :: nat) < 65 \<or> (90 < (of_char p :: nat) \<and> (of_char p :: nat) < 128)"
  shows "suffix pat (lower t) = (\<exists>w. suffix w t \<and> list_all2 same_letter w pat)"
  by (simp add: lower_def suffix_map_iff map_lower_char_iff [OF assms])

lemma code_patterns_ascii:
  "\<forall>pat \<in> set ([''good'', ''great'', ''cat'', ''dog''] @ valid_formats). \<forall>p \<in> set pat.
      (of_char p :: nat) < 65 \<or> (90 < (of_char p :: nat) \<and> (of_char p :: nat) < 128)"
  by (simp add: valid_formats_def)

lemma patterns_ignore_case:
  "pat \<in> set [''good'', ''great'', ''cat'', ''dog''] \<Longrightarrow>
     sublist pat (lower t) = (\<exists>w. sublist w t \<and> list_all2 same_letter w pat)"
  "fmt \<in> set valid_formats \<Longrightarrow>
     suffix fmt (lower t) = (\<exists>w. suffix w t \<and> list_all2 same_letter w fmt)"
  using code_patterns_ascii by (auto intro!: sublist_lower_iff suffix_lower_iff)

section \<open>Properties of \<^verbatim>\<open>process_input\<close>\<close>

text \<open>A call with one positional argument, with the decorators unfolded.\<close>

lemma process_input_single:
  "process_input fs self [x] =
     (if \<not> truthy x
      then \<lparr>outcome = Inl (PyExc ''ValueError'' ''Input cannot be empty''),
            self_after = self, opened = []\<rparr>
      else (case cls self of
              TextClassificationModel \<Rightarrow> text_process_input self x
            | ImageClassificationModel \<Rightarrow> image_process_input fs self x))"
  by (simp add: process_input_def validate_input_def performance_monitor_def bind_input_def
      split: variant.split)

lemma text_try_dict: "text_try self x = Inr v \<Longrightarrow> \<exists>d. v = PyDict d"
  by (auto simp: text_try_def Let_def error_result_def split: if_splits sum.splits)

lemma image_try_dict: "fst (image_try fs self x) = Inr v \<Longrightarrow> \<exists>d. v = PyDict d"
  by (auto simp: image_try_def Let_def error_result_def split: if_splits sum.splits pyarg.splits)

text \<open>Where the \<^verbatim>\<open>try\<close> blocks raise: in the call of the pipeline, in \<^verbatim>\<open>Image.open\<close>, and
  in \<^verbatim>\<open>lower\<close> of an argument that is not a string.\<close>

lemma text_try_raises:
  "(text_try self x = Inl e) =
     (length (clean_text x) \<le> 1000 \<and> \<not> is_mock (pipeline self) ''mock_sentiment_pipeline'' \<and>
      call_pipeline (pipeline self) (TextIn (clean_text x)) = Inl e)"
  by (auto simp: text_try_def Let_def validate_text_length_def split: sum.splits)

lemma image_try_raises:
  "(fst (image_try fs self (ArgStr p)) = Inl e) =
     (validate_image_format p \<and>
      (fs p = Inl e \<or>
       (\<exists>img. fs p = Inr img \<and> \<not> is_mock (pipeline self) ''mock_image_pipeline'' \<and>
          call_pipeline (pipeline self) (ImageIn img) = Inl e)))"
  by (auto simp: image_try_def Let_def split: sum.splits)

lemma image_try_raises_not_str:
  "fst (image_try fs self ArgNone) =
     Inl (PyExc ''AttributeError''
       (quoted ''NoneType'' @ '' object has no attribute '' @ quoted ''lower''))"
  "fst (image_try fs self (ArgBool b)) =
     Inl (PyExc ''AttributeError''
       (quoted ''bool'' @ '' object has no attribute '' @ quoted ''lower''))"
  by (simp_all add: image_try_def)

lemma try_block_dict: "try_block fs self x = Inr v \<Longrightarrow> \<exists>d. v = PyDict d"
  by (auto simp: try_block_def split: variant.splits dest: text_try_dict image_try_dict)

lemma except_Exception_dict:
  assumes "\<And>v. r = Inr v \<Longrightarrow> \<exists>d. v = PyDict d"
  shows "\<exists>d. except_Exception r = Inr (PyDict d)"
  using assms by (cases r) (auto simp: except_Exception_def error_result_def)

lemma outcome_loaded:
  "truthy x \<Longrightarrow> is_loaded self \<Longrightarrow>
   outcome (process_input fs self [x]) = except_Exception (try_block fs self x)"
  by (simp add: process_input_single text_process_input_def image_process_input_def try_block_def
      split: variant.split)

lemma outcome_not_loaded:
  "truthy x \<Longrightarrow> \<not> is_loaded self \<Longrightarrow>
   outcome (process_input fs self [x]) = Inr (error_result ''Model not loaded'')"
  by (simp add: process_input_single text_process_input_def image_process_input_def
      split: variant.split)

text \<open>
  C1. For both classes, every file system, every instance (loaded or not, whatever its
  pipeline) and every argument with a true truth value, \<^verbatim>\<open>process_input\<close> returns a
  dictionary and raises nothing. In a loaded instance, an exception that the \<^verbatim>\<open>try\<close>
  block raises (in the preprocessing or in the call of the responder) becomes the result
  \<^verbatim>\<open>{"error": "Processing failed: " + str(e)}\<close>.
\<close>

theorem process_input_never_raises:
  "truthy x \<Longrightarrow>
     (\<exists>d. outcome (process_input fs self [x]) = Inr (PyDict d)) \<and>
     (is_loaded self \<longrightarrow>
        (\<forall>e. try_block fs self x = Inl e \<longrightarrow>
           outcome (process_input fs self [x]) =
             Inr (PyDict [(''error'', PyStr (''Processing failed: '' @ exc_str e))])))"
proof (cases "is_loaded self")
  case False
  assume "truthy x"
  with False show ?thesis by (simp add: outcome_not_loaded error_result_def)
next
  case True
  assume t: "truthy x"
  have "\<exists>d. except_Exception (try_block fs self x) = Inr (PyDict d)"
    by (rule except_Exception_dict) (rule try_block_dict)
  with t True show ?thesis
    by (simp add: outcome_loaded except_Exception_def error_result_def)
qed

text \<open>A text model whose real pipeline fails on every input.\<close>

theorem process_input_never_raises_witness:
  "truthy (ArgStr ''hello'') \<and>
   is_loaded (load_model failing_hub (new_instance TextClassificationModel)) \<and>
   try_block no_files (load_model failing_hub (new_instance TextClassificationModel))
       (ArgStr ''hello'') = Inl (PyExc ''RuntimeError'' ''out of memory'') \<and>
   outcome (process_input no_files (load_model failing_hub (new_instance TextClassificationModel))
       [ArgStr ''hello'']) = Inr (PyDict [(''error'', PyStr ''Processing failed: out of memory'')])"
proof -
  let ?m = "load_model failing_hub (new_instance TextClassificationModel)"
  have t: "truthy (ArgStr ''hello'')" by simp
  have l: "is_loaded ?m"
    by (simp add: load_model_def failing_hub_def AIModelBase_init_def)
  have c: "clean_text (ArgStr ''hello'') = ''hello''"
    by (simp add: clean_text_def strip_def replace_def isspace_def)
  have b: "try_block no_files ?m (ArgStr ''hello'') = Inl (PyExc ''RuntimeError'' ''out of memory'')"
    by (simp add: try_block_def text_try_def c load_model_def failing_hub_def AIModelBase_init_def
        validate_text_length_def is_mock_def call_pipeline_def failing_responder_def)
  from process_input_never_raises [OF t, of no_files ?m] l b
  have "outcome (process_input no_files ?m [ArgStr ''hello'']) =
          Inr (PyDict [(''error'', PyStr (''Processing failed: '' @
             exc_str (PyExc ''RuntimeError'' ''out of memory'')))])"
    by blast
  with t l b show ?thesis by simp
qed



text \<open>
  C3. For both classes, an argument with a true truth value given to an instance whose
  loaded flag is false returns \<^verbatim>\<open>{"error": "Model not loaded"}\<close>; nothing is raised.
\<close>

theorem not_loaded_soft_error:
  "truthy x \<Longrightarrow> \<not> is_loaded self \<Longrightarrow>
     outcome (process_input fs self [x]) = Inr (PyDict [(''error'', PyStr ''Model not loaded'')])"
  by (simp add: outcome_not_loaded error_result_def)

theorem not_loaded_soft_error_witness:
  "truthy (ArgStr ''photo_of_dog.png'') \<and>
   \<not> is_loaded (new_instance ImageClassificationModel) \<and>
   outcome (process_input any_file (new_instance ImageClassificationModel)
       [ArgStr ''photo_of_dog.png'']) = Inr (PyDict [(''error'', PyStr ''Model not loaded'')])"
  using not_loaded_soft_error [of "ArgStr ''photo_of_dog.png''"
      "new_instance ImageClassificationModel" any_file]
  by (simp add: AIModelBase_init_def)

text \<open>The instance after a call.\<close>

lemma bind_input_self_after:
  assumes "\<And>s x. self_after (func s x) = s"
  shows "self_after (bind_input q p func self args) = self"
  using assms by (simp add: bind_input_def split: list.split)

text \<open>
  C9. For both classes, every tuple of arguments and every instance, the instance after
  \<^verbatim>\<open>process_input\<close> is the instance before it (its loaded flag, its name, its
  category and its pipeline), whether the call returns a result, returns an error result or
  raises.
\<close>

theorem process_input_keeps_instance:
  "self_after (process_input fs self args) = self \<and>
   is_loaded (self_after (process_input fs self args)) = is_loaded self \<and>
   model_name (self_after (process_input fs self args)) = model_name self \<and>
   category (self_after (process_input fs self args)) = category self"
proof -
  have t: "\<And>s x. self_after (text_process_input s x) = s"
    by (simp add: text_process_input_def)
  have i: "\<And>s x. self_after (image_process_input fs s x) = s"
    by (simp add: image_process_input_def)
  have "self_after (process_input fs self args) = self"
    by (simp add: process_input_def validate_input_def performance_monitor_def
        bind_input_self_after [OF t] bind_input_self_after [OF i] split: variant.split)
  then show ?thesis by simp
qed

section \<open>The text variant\<close>

lemma clean_text_empty: "clean_text (ArgStr []) = []"
  by (simp add: clean_text_def strip_def replace_def)

lemma text_outcome:
  "cls self = TextClassificationModel \<Longrightarrow> is_loaded self \<Longrightarrow> truthy x \<Longrightarrow>
   outcome (process_input fs self [x]) = except_Exception (text_try self x)"
  by (simp add: outcome_loaded try_block_def)

text \<open>
  C4. For the text class, loaded, with the mock responder, and a non-empty text whose cleaned
  form has at most 1000 characters: the call returns the cleaned text, the name of the model
  and one label with the score 0.95. The label is \<^verbatim>\<open>POSITIVE\<close> when the lowered cleaned
  text contains \<^verbatim>\<open>good\<close> or \<^verbatim>\<open>great\<close>, and \<^verbatim>\<open>NEGATIVE\<close> otherwise.
\<close>

theorem mock_sentiment_label:
  "cls self = TextClassificationModel \<Longrightarrow> is_loaded self \<Longrightarrow>
   pipeline self = PStr ''mock_sentiment_pipeline'' \<Longrightarrow>
   s \<noteq> [] \<Longrightarrow> length (clean_text (ArgStr s)) \<le> 1000 \<Longrightarrow>
     outcome (process_input fs self [ArgStr s]) =
       Inr (PyDict
         [(''input'', PyStr (clean_text (ArgStr s))),
          (''results'',
             PyList [PyDict
               [(''label'',
                   PyStr (if sublist ''good'' (lower (clean_text (ArgStr s)))
                             \<or> sublist ''great'' (lower (clean_text (ArgStr s)))
                          then ''POSITIVE'' else ''NEGATIVE'')),
                (''score'', PyFloat 0.95)]]),
          (''model_used'', PyStr (model_name self))])"
  by (simp add: text_outcome text_try_def Let_def validate_text_length_def is_mock_def
      mock_sentiment_def label_score_def except_Exception_def)

lemma clean_this_is_great: "clean_text (ArgStr ''this is GREAT'') = ''this is GREAT''"
  by (simp add: clean_text_def strip_def replace_def isspace_def)

lemma lower_this_is_great: "lower ''this is GREAT'' = ''this is great''"
  by (simp add: lower_def lower_char_def char_of_eq_iff)

theorem mock_sentiment_label_witness:
  "cls (load_model offline_hub (new_instance TextClassificationModel)) = TextClassificationModel \<and>
   is_loaded (load_model offline_hub (new_instance TextClassificationModel)) \<and>
   pipeline (load_model offline_hub (new_instance TextClassificationModel))
     = PStr ''mock_sentiment_pipeline'' \<and>
   length (clean_text (ArgStr ''this is GREAT'')) \<le> 1000 \<and>
   outcome (process_input no_files (load_model offline_hub (new_instance TextClassificationModel))
       [ArgStr ''this is GREAT'']) =
     Inr (PyDict
       [(''input'', PyStr ''this is GREAT''),
        (''results'', PyList [PyDict [(''label'', PyStr ''POSITIVE''), (''score'', PyFloat 0.95)]]),
        (''model_used'', PyStr ''distilbert-base-uncased-finetuned-sst-2-english'')])"
proof -
  have g: "sublist ''great'' ''this is great''"
    by (simp add: sublist_code)
  show ?thesis
    using mock_sentiment_label [of "load_model offline_hub (new_instance TextClassificationModel)"
        "''this is GREAT''" no_files] g
    by (simp add: load_model_def offline_hub_def AIModelBase_init_def clean_this_is_great
        lower_this_is_great)
qed

lemma clean_text_length: "length (clean_text (ArgStr s)) \<le> length s"
proof -
  have "length (strip s) \<le> length (dropWhile isspace s)"
    using length_dropWhile_le [of isspace "rev (dropWhile isspace s)"] by (simp add: strip_def)
  also have "\<dots> \<le> length s" by (rule length_dropWhile_le)
  finally show ?thesis by (simp add: clean_text_def replace_def)
qed

text \<open>
  C5. For the text class, loaded (with any pipeline): a text whose cleaned form is longer
  than 1000 characters returns \<^verbatim>\<open>{"error": "Text too long (max 1000 characters)"}\<close> and
  raises nothing; a non-empty text whose cleaned form has 1000 characters or fewer passes
  \<^verbatim>\<open>validate_text_length\<close> and does not get this result.
\<close>

theorem text_length_guard:
  "cls self = TextClassificationModel \<Longrightarrow> is_loaded self \<Longrightarrow>
     (1000 < length (clean_text (ArgStr s)) \<longrightarrow>
        outcome (process_input fs self [ArgStr s]) =
          Inr (PyDict [(''error'', PyStr ''Text too long (max 1000 characters)'')])) \<and>
     (s \<noteq> [] \<and> length (clean_text (ArgStr s)) \<le> 1000 \<longrightarrow>
        validate_text_length (clean_text (ArgStr s)) 1000 \<and>
        outcome (process_input fs self [ArgStr s]) \<noteq>
          Inr (PyDict [(''error'', PyStr ''Text too long (max 1000 characters)'')]))"
proof (intro conjI impI)
  assume c: "cls self = TextClassificationModel" and l: "is_loaded self"
  {
    assume long: "1000 < length (clean_text (ArgStr s))"
    with clean_text_length [of s] have "s \<noteq> []" by auto
    with c l long show "outcome (process_input fs self [ArgStr s]) =
        Inr (PyDict [(''error'', PyStr ''Text too long (max 1000 characters)'')])"
      by (simp add: text_outcome text_try_def Let_def validate_text_length_def
          except_Exception_def error_result_def)
  }
  {
    assume short: "s \<noteq> [] \<and> length (clean_text (ArgStr s)) \<le> 1000"
    then show "validate_text_length (clean_text (ArgStr s)) 1000"
      by (simp add: validate_text_length_def)
    from c l short show "outcome (process_input fs self [ArgStr s]) \<noteq>
        Inr (PyDict [(''error'', PyStr ''Text too long (max 1000 characters)'')])"
      by (simp add: text_outcome text_try_def Let_def validate_text_length_def
          except_Exception_def error_result_def split: sum.split)
  }
qed

lemma clean_text_replicate_a:
  "clean_text (ArgStr (replicate n (CHR ''a''))) = replicate n (CHR ''a'')"
  by (simp add: clean_text_def strip_def replace_def isspace_def dropWhile_replicate
      flip: replicate_append_same)

theorem text_length_guard_witness:
  "cls (load_model offline_hub (new_instance TextClassificationModel)) = TextClassificationModel \<and>
   is_loaded (load_model offline_hub (new_instance TextClassificationModel)) \<and>
   1000 < length (clean_text (ArgStr (replicate 1001 (CHR ''a'')))) \<and>
   outcome (process_input no_files (load_model offline_hub (new_instance TextClassificationModel))
       [ArgStr (replicate 1001 (CHR ''a''))]) =
     Inr (PyDict [(''error'', PyStr ''Text too long (max 1000 characters)'')]) \<and>
   length (clean_text (ArgStr (replicate 1000 (CHR ''a'')))) \<le> 1000 \<and>
   outcome (process_input no_files (load_model offline_hub (new_instance TextClassificationModel))
       [ArgStr (replicate 1000 (CHR ''a''))]) \<noteq>
     Inr (PyDict [(''error'', PyStr ''Text too long (max 1000 characters)'')])"
  using text_length_guard [of "load_model offline_hub (new_instance TextClassificationModel)"
      "replicate 1001 (CHR ''a'')" no_files]
    text_length_guard [of "load_model offline_hub (new_instance TextClassificationModel)"
      "replicate 1000 (CHR ''a'')" no_files]
  by (simp add: load_model_def offline_hub_def AIModelBase_init_def clean_text_replicate_a)

section \<open>The image variant\<close>

lemma lower_append: "lower (a @ b) = lower a @ lower b"
  by (simp add: lower_def)

lemma basename_lower: "basename (lower p) = lower (basename p)"
  by (simp add: basename_def lower_def rev_map takeWhile_map comp_def lower_char_slash)

lemma prefix_takeWhile:
  "\<forall>x \<in> set ys. P x \<Longrightarrow> prefix ys (takeWhile P xs) = prefix ys xs"
proof (induction xs arbitrary: ys)
  case Nil
  then show ?case by simp
next
  case (Cons x xs)
  then show ?case by (cases ys) auto
qed

text \<open>A suffix without a slash is a suffix of the path exactly when it is one of the file name.\<close>

lemma suffix_basename:
  "CHR ''/'' \<notin> set fmt \<Longrightarrow> suffix fmt (basename p) = suffix fmt p"
proof -
  assume "CHR ''/'' \<notin> set fmt"
  then have "\<forall>x \<in> set (rev fmt). x \<noteq> CHR ''/''" by auto
  from prefix_takeWhile [OF this, of "rev p"] show ?thesis
    by (simp add: basename_def suffix_to_prefix)
qed

lemma validate_image_format_basename:
  "validate_image_format p =
     list_ex (\<lambda>fmt. suffix fmt (lower (basename p)))
       [''.jpg'', ''.jpeg'', ''.png'', ''.bmp'', ''.gif'']"
  by (simp add: validate_image_format_def valid_formats_def
      suffix_basename [of _ "lower p", unfolded basename_lower, symmetric])

lemma image_outcome:
  "cls self = ImageClassificationModel \<Longrightarrow> is_loaded self \<Longrightarrow> truthy x \<Longrightarrow>
   process_input fs self [x] =
     \<lparr>outcome = except_Exception (fst (image_try fs self x)), self_after = self,
      opened = snd (image_try fs self x)\<rparr>"
  by (simp add: process_input_single image_process_input_def)

text \<open>
  C6. For the image class, loaded (with any pipeline), and a non-empty path: when the
  lowered file name ends with none of \<^verbatim>\<open>.jpg .jpeg .png .bmp .gif\<close>, the call returns
  \<^verbatim>\<open>{"error": "Invalid image format"}\<close>, raises nothing and has passed no path to
  \<^verbatim>\<open>Image.open\<close>; when it ends with one of them, the path passes
  \<^verbatim>\<open>validate_image_format\<close> and the call does not return this result. A path that ends
  with one of the five extensions written in any letter case passes the check.
\<close>

theorem image_extension_check:
  "cls self = ImageClassificationModel \<Longrightarrow> is_loaded self \<Longrightarrow> p \<noteq> [] \<Longrightarrow>
     (\<not> list_ex (\<lambda>fmt. suffix fmt (lower (basename p)))
            [''.jpg'', ''.jpeg'', ''.png'', ''.bmp'', ''.gif''] \<longrightarrow>
        outcome (process_input fs self [ArgStr p]) =
          Inr (PyDict [(''error'', PyStr ''Invalid image format'')]) \<and>
        opened (process_input fs self [ArgStr p]) = []) \<and>
     (list_ex (\<lambda>fmt. suffix fmt (lower (basename p)))
            [''.jpg'', ''.jpeg'', ''.png'', ''.bmp'', ''.gif''] \<longrightarrow>
        validate_image_format p \<and>
        outcome (process_input fs self [ArgStr p]) \<noteq>
          Inr (PyDict [(''error'', PyStr ''Invalid image format'')])) \<and>
     (\<forall>stem ext. lower ext \<in> set [''.jpg'', ''.jpeg'', ''.png'', ''.bmp'', ''.gif''] \<longrightarrow>
        validate_image_format (stem @ ext))"
proof (intro conjI impI allI)
  assume c: "cls self = ImageClassificationModel" and l: "is_loaded self" and p: "p \<noteq> []"
  let ?ok = "list_ex (\<lambda>fmt. suffix fmt (lower (basename p)))
      [''.jpg'', ''.jpeg'', ''.png'', ''.bmp'', ''.gif'']"
  {
    assume "\<not> ?ok"
    then have v: "\<not> validate_image_format p"
      using validate_image_format_basename [of p] by blast
    from c l p v show "outcome (process_input fs self [ArgStr p]) =
        Inr (PyDict [(''error'', PyStr ''Invalid image format'')])"
      by (simp add: image_outcome image_try_def except_Exception_def error_result_def)
    from c l p v show "opened (process_input fs self [ArgStr p]) = []"
      by (simp add: image_outcome image_try_def)
  }
  {
    assume "?ok"
    then show v: "validate_image_format p"
      using validate_image_format_basename [of p] by blast
    from c l p v show "outcome (process_input fs self [ArgStr p]) \<noteq>
        Inr (PyDict [(''error'', PyStr ''Invalid image format'')])"
      by (simp add: image_outcome image_try_def Let_def except_Exception_def error_result_def
          split: sum.split)
  }
  {
    fix stem ext
    assume "lower ext \<in> set [''.jpg'', ''.jpeg'', ''.png'', ''.bmp'', ''.gif'']"
    then have "lower ext \<in> set valid_formats"
      by (simp add: valid_formats_def)
    moreover have "suffix (lower ext) (lower stem @ lower ext)"
      by (rule suffix_appendI) simp
    ultimately show "validate_image_format (stem @ ext)"
      unfolding validate_image_format_def lower_append list_ex_iff by blast
  }
qed

lemma basename_notes: "lower (basename ''notes.txt'') = ''notes.txt''"
  by (simp add: basename_def lower_def lower_char_def)

lemma basename_PHOTO: "lower (basename ''album/PHOTO.JPG'') = ''photo.jpg''"
  by (simp add: basename_def lower_def lower_char_def char_of_eq_iff)

lemma lower_Png: "lower ''.Png'' = ''.png''"
  by (simp add: lower_def lower_char_def char_of_eq_iff)

theorem image_extension_check_witness:
  "cls (load_model offline_hub (new_instance ImageClassificationModel)) = ImageClassificationModel \<and>
   is_loaded (load_model offline_hub (new_instance ImageClassificationModel)) \<and>
   outcome (process_input any_file (load_model offline_hub (new_instance ImageClassificationModel))
       [ArgStr ''notes.txt'']) = Inr (PyDict [(''error'', PyStr ''Invalid image format'')]) \<and>
   opened (process_input any_file (load_model offline_hub (new_instance ImageClassificationModel))
       [ArgStr ''notes.txt'']) = [] \<and>
   validate_image_format ''album/PHOTO.JPG'' \<and>
   outcome (process_input any_file (load_model offline_hub (new_instance ImageClassificationModel))
       [ArgStr ''album/PHOTO.JPG'']) \<noteq> Inr (PyDict [(''error'', PyStr ''Invalid image format'')]) \<and>
   validate_image_format (''holiday'' @ ''.Png'')"
proof -
  let ?m = "load_model offline_hub (new_instance ImageClassificationModel)"
  have c: "cls ?m = ImageClassificationModel" and l: "is_loaded ?m"
    by (simp_all add: load_model_def offline_hub_def AIModelBase_init_def)
  have n: "''notes.txt'' \<noteq> []" and j: "''album/PHOTO.JPG'' \<noteq> []"
    by simp_all
  note r1 = image_extension_check [OF c l n, of any_file]
  note r2 = image_extension_check [OF c l j, of any_file]
  have "validate_image_format (''holiday'' @ ''.Png'')"
    by (rule r2 [THEN conjunct2, THEN conjunct2, rule_format]) (simp add: lower_Png)
  with r1 r2 c l show ?thesis
    by (simp add: basename_notes basename_PHOTO suffix_to_prefix)
qed







section \<open>Properties of the factory\<close>

lemma create_model_cases:
  "create_model h t = (Inl (PyExc ''ValueError'' (''Unknown model type: '' @ t)), h) \<and>
     t \<notin> set get_available_models
   \<or> (\<exists>c. map_of models t = Some c \<and> t \<in> set get_available_models \<and>
          create_model h t = (Inr (length h), h @ [new_instance c]))"
  by (auto simp: create_model_def get_available_models_def models_def)

lemma cls_new_instance: "cls (new_instance c) = c"
  by (cases c) (simp_all add: AIModelBase_init_def)

text \<open>References handed out in a row are at or above the old end of the heap, and distinct.\<close>

lemma create_all_fresh:
  "distinct (fst (create_all h ts)) \<and> (\<forall>r \<in> set (fst (create_all h ts)). length h \<le> r)"
proof (induction ts arbitrary: h)
  case Nil
  then show ?case by simp
next
  case (Cons t ts)
  from create_model_cases [of h t] show ?case
  proof (elim disjE conjE exE)
    assume "create_model h t = (Inl (PyExc ''ValueError'' (''Unknown model type: '' @ t)), h)"
    with Cons.IH [of h] show ?thesis by simp
  next
    fix c
    assume "create_model h t = (Inr (length h), h @ [new_instance c])"
    with Cons.IH [of "h @ [new_instance c]"] show ?thesis by fastforce
  qed
qed

text \<open>
  C8. For an identifier that is not registered, \<^verbatim>\<open>create_model\<close> raises
  \<^verbatim>\<open>ValueError("Unknown model type: " + identifier)\<close> and allocates nothing. For a
  registered identifier it returns a reference to a newly constructed, not yet loaded
  instance of the class the registry maps it to; the reference was not allocated before,
  and the instances allocated before are untouched. The references returned by any
  sequence of calls are pairwise distinct.
\<close>

theorem create_model_fresh_instance:
  "(model_type \<notin> set get_available_models \<longrightarrow>
      create_model h model_type =
        (Inl (PyExc ''ValueError'' (''Unknown model type: '' @ model_type)), h)) \<and>
   (model_type \<in> set get_available_models \<longrightarrow>
      (\<exists>c. map_of models model_type = Some c \<and>
           create_model h model_type = (Inr (length h), h @ [new_instance c]) \<and>
           cls (new_instance c) = c \<and> \<not> is_loaded (new_instance c)) \<and>
      \<not> allocated h (length h) \<and>
      (\<forall>r. allocated h r \<longrightarrow>
           allocated (snd (create_model h model_type)) r \<and>
           snd (create_model h model_type) ! r = h ! r)) \<and>
   distinct (fst (create_all h ts)) \<and>
   (\<forall>r \<in> set (fst (create_all h ts)). \<not> allocated h r)"
proof (intro conjI impI)
  show "distinct (fst (create_all h ts))"
    using create_all_fresh [of h ts] by simp
  show "\<forall>r \<in> set (fst (create_all h ts)). \<not> allocated h r"
    using create_all_fresh [of h ts] by (auto simp: allocated_def)
  show "\<not> allocated h (length h)"
    by (simp add: allocated_def)
next
  assume "model_type \<notin> set get_available_models"
  with create_model_cases [of h model_type]
  show "create_model h model_type =
      (Inl (PyExc ''ValueError'' (''Unknown model type: '' @ model_type)), h)"
    by blast
next
  assume "model_type \<in> set get_available_models"
  with create_model_cases [of h model_type]
  obtain c where c: "map_of models model_type = Some c"
    "create_model h model_type = (Inr (length h), h @ [new_instance c])"
    by blast
  have "\<not> is_loaded (new_instance c)"
    by (cases c) (simp_all add: AIModelBase_init_def)
  with c show "\<exists>c. map_of models model_type = Some c \<and>
      create_model h model_type = (Inr (length h), h @ [new_instance c]) \<and>
      cls (new_instance c) = c \<and> \<not> is_loaded (new_instance c)"
    by (simp add: cls_new_instance)
  from c show "\<forall>r. allocated h r \<longrightarrow>
      allocated (snd (create_model h model_type)) r \<and>
      snd (create_model h model_type) ! r = h ! r"
    by (simp add: allocated_def nth_append)
qed

theorem create_model_fresh_instance_witness:
  "''nonexistent'' \<notin> set get_available_models \<and>
   create_model [] ''nonexistent'' =
     (Inl (PyExc ''ValueError'' ''Unknown model type: nonexistent''), []) \<and>
   ''Image Classification'' \<in> set get_available_models \<and>
   create_model [new_instance TextClassificationModel] ''Image Classification'' =
     (Inr 1, [new_instance TextClassificationModel, new_instance ImageClassificationModel]) \<and>
   allocated [new_instance TextClassificationModel] 0 \<and>
   fst (create_all [] [''Text-to-Image'', ''nonexistent'', ''Text-to-Image'']) = [0, 1]"
proof -
  note r1 = create_model_fresh_instance [of "''nonexistent''" "[]"
      "[''Text-to-Image'', ''nonexistent'', ''Text-to-Image'']"]
  note r2 = create_model_fresh_instance [of "''Image Classification''"
      "[new_instance TextClassificationModel]" "[]"]
  have a: "''nonexistent'' \<notin> set get_available_models"
    and b: "''Image Classification'' \<in> set get_available_models"
    by (simp_all add: get_available_models_def models_def)
  have m: "map_of models ''Image Classification'' = Some ImageClassificationModel"
    by (simp add: models_def)
  from r1 a have 1: "create_model [] ''nonexistent'' =
      (Inl (PyExc ''ValueError'' (''Unknown model type: '' @ ''nonexistent'')), [])"
    by blast
  from r2 b m have 2: "create_model [new_instance TextClassificationModel] ''Image Classification'' =
      (Inr (length [new_instance TextClassificationModel]),
       [new_instance TextClassificationModel] @ [new_instance ImageClassificationModel])"
    by auto
  have 3: "fst (create_all [] [''Text-to-Image'', ''nonexistent'', ''Text-to-Image'']) = [0, 1]"
    by (simp add: create_model_def models_def)
  from a b 1 2 3 show ?thesis
    by (simp add: allocated_def)
qed

text \<open>
  C10. \<^verbatim>\<open>get_available_models\<close> is the list \<^verbatim>\<open>["Text-to-Image", "Image Classification"]\<close>,
  in this order. The identifier \<^verbatim>\<open>"Text-to-Image"\<close> constructs an instance of the text
  class, whose \<^verbatim>\<open>get_model_info()["category"]\<close> is \<^verbatim>\<open>"Text Classification"\<close>: the
  identifier is not the category.
\<close>

theorem registry_identifiers:
  "get_available_models = [''Text-to-Image'', ''Image Classification''] \<and>
   create_model h ''Text-to-Image'' = (Inr (length h), h @ [new_instance TextClassificationModel]) \<and>
   cls (new_instance TextClassificationModel) = TextClassificationModel \<and>
   map_of (get_model_info (new_instance TextClassificationModel)) ''category''
     = Some ''Text Classification'' \<and>
   ''Text-to-Image'' \<noteq> ''Text Classification''"
  by (simp add: get_available_models_def models_def create_model_def get_model_info_def
      AIModelBase_get_model_info_def dict_update_def AIModelBase_init_def)

end
